theory Spec2Isabelle
  imports Main "HOL-Library.Word"
begin

section \<open>The input device type\<close>

text \<open>
  \<^verbatim>\<open>include/anbox-platform-sdk/input_processor.h\<close>, lines 30-39:
  \<^verbatim>\<open>typedef enum { POINTER = 0, KEYBOARD, TOUCHPANEL, GAMEPAD, } AnboxInputDeviceType;\<close>
\<close>

datatype AnboxInputDeviceType = POINTER | KEYBOARD | TOUCHPANEL | GAMEPAD

text \<open>
  The enumerator list as it is written: each enumerator with its initialiser, when it
  has one. Only \<open>POINTER\<close> has one.
\<close>

definition AnboxInputDeviceType_enumerators :: "(AnboxInputDeviceType \<times> int option) list" where
  "AnboxInputDeviceType_enumerators =
     [(POINTER, Some 0), (KEYBOARD, None), (TOUCHPANEL, None), (GAMEPAD, None)]"

text \<open>
  The numbering rule of a C enumeration: an enumerator with an initialiser has that
  value, one without has the value of its predecessor plus one, and a first enumerator
  without initialiser has the value \<open>n\<close> the numbering starts from (0 in C).
\<close>

fun enumerator_values :: "int \<Rightarrow> ('a \<times> int option) list \<Rightarrow> ('a \<times> int) list" where
  "enumerator_values n [] = []"
| "enumerator_values n ((c, Some v) # cs) = (c, v) # enumerator_values (v + 1) cs"
| "enumerator_values n ((c, None) # cs) = (c, n) # enumerator_values (n + 1) cs"

definition device_type_values :: "(AnboxInputDeviceType \<times> int) list" where
  "device_type_values = enumerator_values 0 AnboxInputDeviceType_enumerators"

text \<open>
  A C object of the enumeration type can hold any integer of the underlying type; it
  is a valid device type when it is the value of one of the enumerators.
\<close>

definition valid_device_type :: "int \<Rightarrow> bool" where
  "valid_device_type v = (v \<in> snd ` set device_type_values)"

text \<open>
  The enumeration's documentation (lines 26-29): "Possible device types are: pointer,
  keyboard, touchpanel."
\<close>

definition documented_device_types :: "AnboxInputDeviceType list" where
  "documented_device_types = [POINTER, KEYBOARD, TOUCHPANEL]"

section \<open>The input event\<close>

text \<open>
  \<^verbatim>\<open>struct AnboxInputEvent\<close>, lines 47-60. \<^verbatim>\<open>int32_t\<close> and \<^verbatim>\<open>uint16_t\<close> are words of
  32 and 16 bits; the first is read as two's complement (\<open>sint\<close>), the second as
  unsigned (\<open>uint\<close>).
\<close>

type_synonym int32_t = "32 word"
type_synonym uint16_t = "16 word"

record AnboxInputEvent =
  device_type :: AnboxInputDeviceType
  device_id :: int32_t
  type :: uint16_t
  code :: uint16_t
  "value" :: int32_t

section \<open>The return codes of \<open>read_event\<close>\<close>

text \<open>
  \<^verbatim>\<open>EIO\<close> and \<^verbatim>\<open>EINVAL\<close> are macros of the platform's \<^verbatim>\<open><errno.h>\<close>, which is no file
  of the repository. The header includes \<^verbatim>\<open><linux/input.h>\<close>; these are the values of
  Linux (\<^verbatim>\<open>asm-generic/errno-base.h\<close>).
\<close>

definition EIO :: int where
  "EIO = 5"

definition EINVAL :: int where
  "EINVAL = 22"

text \<open>
  The outcomes the documentation of \<open>read_event\<close> (lines 75-92) gives a return code:
  success, no event to process, and an error.
\<close>

datatype read_event_status = Success | No_event | Error_occurs

text \<open>
  Line 91: "0 on success otherwise returns EINVAL on error occurs". Line 88:
  "Non-blocking mode; return -EIO immediately if no event to process."
\<close>

fun return_code :: "read_event_status \<Rightarrow> int" where
  "return_code Success = 0"
| "return_code No_event = - EIO"
| "return_code Error_occurs = EINVAL"

section \<open>Reading an event\<close>

text \<open>
  Modelled from the spec: the body of \<open>InputProcessor::read_event\<close>. The header
  declares the function pure virtual (line 93) and the repository's sources hold no
  implementation of it. The model follows section 4.1 of the specification and the table of
  the function's documentation (lines 86-90).

  The processor's state is its queue of pending events, oldest first. The result is the
  return code, the event written to the caller's slot (if one is) and the queue left
  behind; \<open>None\<close> is a call that does not return.
  \<^item> An event is pending: "success fills the output event and returns an ok status";
    "dequeues the event".
  \<^item> Nothing is pending and the timeout is 0: "non-blocking poll, fails immediately
    with a no data condition".
  \<^item> Nothing is pending and the timeout is negative: "block with no upper bound until an
    event arrives". The model is sequential, no other caller can make an event arrive
    during the call, so the call does not return.
  \<^item> Nothing is pending and the timeout is positive: "block up to that many
    milliseconds, then report no data if still empty". The time that passes is not
    part of the model.
\<close>

definition read_event ::
  "int \<Rightarrow> AnboxInputEvent list \<Rightarrow> (int \<times> AnboxInputEvent option \<times> AnboxInputEvent list) option"
where
  "read_event timeout queue =
     (case queue of
        e # rest \<Rightarrow> Some (return_code Success, Some e, rest)
      | [] \<Rightarrow>
          (if timeout < 0 then None
           else Some (return_code No_event, None, [])))"

section \<open>The enumeration\<close>

lemma device_type_values_eq:
  "device_type_values = [(POINTER, 0), (KEYBOARD, 1), (TOUCHPANEL, 2), (GAMEPAD, 3)]"
  by (simp add: device_type_values_def AnboxInputDeviceType_enumerators_def)

lemma UNIV_device_type:
  "(UNIV :: AnboxInputDeviceType set) = {POINTER, KEYBOARD, TOUCHPANEL, GAMEPAD}"
  using AnboxInputDeviceType.exhaust by auto

lemma card_device_type: "CARD(AnboxInputDeviceType) = 4"
  by (simp add: UNIV_device_type)

text \<open>
  C9. The enumerators of \<open>AnboxInputDeviceType\<close> get, by the numbering rule of C, the
  consecutive values POINTER = 0, KEYBOARD = 1, TOUCHPANEL = 2, GAMEPAD = 3. The
  type has exactly these four members, and an integer is a valid device type exactly
  when it is one of 0, 1, 2, 3. The enumeration's documentation lists three device types
  only: GAMEPAD is not among them.
\<close>

theorem device_type_four_members:
  "device_type_values = [(POINTER, 0), (KEYBOARD, 1), (TOUCHPANEL, 2), (GAMEPAD, 3)]
   \<and> (UNIV :: AnboxInputDeviceType set) = {POINTER, KEYBOARD, TOUCHPANEL, GAMEPAD}
   \<and> CARD(AnboxInputDeviceType) = 4
   \<and> valid_device_type v = (v \<in> {0, 1, 2, 3})
   \<and> length documented_device_types = 3
   \<and> GAMEPAD \<notin> set documented_device_types"
proof -
  have "valid_device_type v = (v \<in> {0, 1, 2, 3})"
    by (auto simp: valid_device_type_def device_type_values_eq)
  moreover have "length documented_device_types = 3 \<and> GAMEPAD \<notin> set documented_device_types"
    by (simp add: documented_device_types_def)
  ultimately show ?thesis
    using device_type_values_eq UNIV_device_type card_device_type by blast
qed

section \<open>The event record\<close>

lemma card_event: "CARD(AnboxInputEvent) = 4 * 2 ^ 32 * 2 ^ 16 * 2 ^ 16 * 2 ^ 32"
proof -
  let ?mk = "\<lambda>(t, i, ty, c, v).
    \<lparr>device_type = t, device_id = i, type = ty, code = c, value = v\<rparr>"
  have inj: "inj ?mk"
    by (auto simp: inj_on_def)
  have "\<And>e :: AnboxInputEvent. e \<in> range ?mk"
  proof -
    fix e :: AnboxInputEvent
    have "e = ?mk (device_type e, device_id e, type e, code e, value e)"
      by simp
    then show "e \<in> range ?mk" by (rule range_eqI)
  qed
  then have "(UNIV :: AnboxInputEvent set) = range ?mk" by blast
  then have "CARD(AnboxInputEvent) =
      CARD(AnboxInputDeviceType \<times> int32_t \<times> uint16_t \<times> uint16_t \<times> int32_t)"
    using card_image [OF inj] by simp
  then show ?thesis
    by (simp only: card_prod card_word card_device_type len_bit0 len_num1 mult.assoc) simp
qed

text \<open>
  C8. An input event is its five fields and nothing else: it equals the record built
  from them, and there are as many events as there are combinations of the five field
  values (4 device types, 2^32 device ids, 2^16 types, 2^16 codes, 2^32 values). The
  device type is one of the four enumerators, \<open>device_id\<close> and \<open>value\<close> are signed
  32-bit integers, \<open>type\<close> and \<open>code\<close> are unsigned 16-bit integers.
\<close>

theorem event_record_fields:
  "e = \<lparr>device_type = device_type e, device_id = device_id e, type = type e,
         code = code e, value = value e\<rparr>
   \<and> CARD(AnboxInputEvent) = 4 * 2 ^ 32 * 2 ^ 16 * 2 ^ 16 * 2 ^ 32
   \<and> device_type e \<in> {POINTER, KEYBOARD, TOUCHPANEL, GAMEPAD}
   \<and> - (2 ^ 31) \<le> sint (device_id e) \<and> sint (device_id e) < 2 ^ 31
   \<and> 0 \<le> uint (type e) \<and> uint (type e) < 2 ^ 16
   \<and> 0 \<le> uint (code e) \<and> uint (code e) < 2 ^ 16
   \<and> - (2 ^ 31) \<le> sint (value e) \<and> sint (value e) < 2 ^ 31"
proof -
  have fields: "e = \<lparr>device_type = device_type e, device_id = device_id e, type = type e,
         code = code e, value = value e\<rparr>"
    by simp
  have dt: "device_type e \<in> {POINTER, KEYBOARD, TOUCHPANEL, GAMEPAD}"
    using UNIV_device_type by blast
  have id: "- (2 ^ 31) \<le> sint (device_id e) \<and> sint (device_id e) < 2 ^ 31"
    using sint_ge [of "device_id e"] sint_lt [of "device_id e"] by simp
  have ty: "0 \<le> uint (type e) \<and> uint (type e) < 2 ^ 16"
    using uint_lt2p [of "type e"] by simp
  have co: "0 \<le> uint (code e) \<and> uint (code e) < 2 ^ 16"
    using uint_lt2p [of "code e"] by simp
  have va: "- (2 ^ 31) \<le> sint (value e) \<and> sint (value e) < 2 ^ 31"
    using sint_ge [of "value e"] sint_lt [of "value e"] by simp
  from fields card_event dt id ty co va show ?thesis
    by (intro conjI) (rule fields, rule card_event, rule dt, simp_all)
qed

section \<open>The non-blocking read\<close>

text \<open>
  C3. A call of \<open>read_event\<close> with timeout 0 returns in every state of the queue, and
  on the empty queue it returns the no-data code \<open>-EIO\<close>, writes no event to the caller
  and leaves the queue empty.
\<close>

theorem read_event_poll_empty:
  "(\<exists>r. read_event 0 queue = Some r)
   \<and> read_event 0 [] = Some (- EIO, None, [])"
  by (simp add: read_event_def split: list.split)

section \<open>The blocking read\<close>

text \<open>
  C4. A call of \<open>read_event\<close> with a negative timeout returns exactly when an event is
  available: on the empty queue it does not return, and on any other queue it does.
  Whenever it returns, the return code is 0, never the no-data code \<open>-EIO\<close>, and the
  event written to the caller is the oldest pending one, which has left the queue.
\<close>

theorem read_event_blocks_until_event:
  "timeout < 0 \<Longrightarrow>
     (read_event timeout queue = None) = (queue = [])
     \<and> (read_event timeout queue = Some (rc, ev, q') \<longrightarrow>
          rc = 0 \<and> rc \<noteq> - EIO \<and> (\<exists>e. ev = Some e \<and> queue = e # q'))"
  by (cases queue) (auto simp: read_event_def EIO_def)

theorem read_event_blocks_until_event_witness:
  "(- 1 :: int) < 0
   \<and> read_event (- 1) [] = None
   \<and> read_event (- 1)
         [\<lparr>device_type = KEYBOARD, device_id = 1, type = 1, code = 28, value = 1\<rparr>]
       = Some (0,
           Some \<lparr>device_type = KEYBOARD, device_id = 1, type = 1, code = 28, value = 1\<rparr>,
           [])
   \<and> (0 :: int) \<noteq> - EIO"
  using
    read_event_blocks_until_event [of "- 1" "[]" 0 None "[]"]
    read_event_blocks_until_event [of "- 1"
      "[\<lparr>device_type = KEYBOARD, device_id = 1, type = 1, code = 28, value = 1\<rparr>]"
      0 "Some \<lparr>device_type = KEYBOARD, device_id = 1, type = 1, code = 28, value = 1\<rparr>"
      "[]"]
  by (simp add: read_event_def)

end
